theory Spec2Isabelle
  imports Main
begin

section \<open>Video stream API: data model\<close>

text \<open>
  The module \<^verbatim>\<open>app/api/video_stream.py\<close> holds two guards
  (\<^verbatim>\<open>check_same_event\<close>, \<^verbatim>\<open>check_event_access\<close>) and the hooks of the list and
  detail resources. Exceptions are values of type \<open>error\<close>; a hook returns
  \<open>error + unit\<close> (or the updated view arguments), \<open>Inl\<close> being the raised exception.
\<close>

datatype source = Pointer string | Parameter string

datatype error =
    ForbiddenError source string
  | ConflictError source string
  | ObjectNotFound source string
  | KeyError string
  | ExternalError string

text \<open>
  \<open>ForbiddenError\<close>, \<open>ConflictError\<close> and \<open>ObjectNotFound\<close> carry the source dictionary
  (\<^verbatim>\<open>{'pointer': ...}\<close> or \<^verbatim>\<open>{'parameter': ...}\<close>) and the detail message; \<open>KeyError\<close> is
  Python's own; \<open>ExternalError\<close> stands for what the helpers of other modules raise.
\<close>

text \<open>
  Modelled from the spec: the model classes \<^verbatim>\<open>Microlocation\<close>, \<^verbatim>\<open>VideoStream\<close> and
  \<^verbatim>\<open>Event\<close> are declared outside this module. The records carry the attributes the
  module reads: a room has an id, the id of its event and the id of its associated stream
  (\<^verbatim>\<open>room.video_stream and room.video_stream.id\<close>, \<open>None\<close> when the room has none); a stream
  has an id, an optional event id, its rooms and the flag \<^verbatim>\<open>user_can_access\<close> computed for
  the requesting user; an event has an id and a human-readable identifier.
\<close>

record microlocation =
  ml_id :: int
  ml_event_id :: "int option"
  ml_video_stream :: "int option"

record video_stream =
  vs_id :: int
  vs_event_id :: "int option"
  vs_rooms :: "microlocation list"
  vs_user_can_access :: bool

record event =
  ev_id :: int
  ev_identifier :: string

text \<open>The tables the module queries through the ORM session.\<close>

record db =
  microlocations :: "microlocation list"
  video_streams :: "video_stream list"

text \<open>
  The deserialised request payload \<^verbatim>\<open>data\<close> with its two relationship keys
  (\<open>None\<close>: key absent), and the view arguments \<^verbatim>\<open>view_kwargs\<close> of the detail routes.
\<close>

record payload =
  data_rooms :: "int list option"
  data_event :: "int option"

record view_kwargs =
  vk_id :: "int option"
  vk_room_id :: "int option"
  vk_event_identifier :: "string option"
  vk_event_id :: "int option"

section \<open>Python truthiness and sequencing\<close>

text \<open>\<^verbatim>\<open>if x:\<close> on an optional integer, string or list: \<open>None\<close>, \<open>0\<close>, \<open>''\<close> and \<open>[]\<close> are falsy.\<close>

fun truthy_int :: "int option \<Rightarrow> bool" where
  "truthy_int None = False"
| "truthy_int (Some n) = (n \<noteq> 0)"

fun truthy_seq :: "'a list option \<Rightarrow> bool" where
  "truthy_seq None = False"
| "truthy_seq (Some xs) = (xs \<noteq> [])"

text \<open>Statement sequencing: the first raised exception ends the function.\<close>

fun and_then :: "error + 'a \<Rightarrow> ('a \<Rightarrow> error + 'b) \<Rightarrow> error + 'b" where
  "and_then (Inl e) f = Inl e"
| "and_then (Inr x) f = f x"

section \<open>The guards\<close>

text \<open>
  \<^verbatim>\<open>check_event_access(event_id)\<close>; \<open>has_access\<close> is the permission manager's predicate for
  the requesting user, called as \<^verbatim>\<open>has_access('is_coorganizer', event_id=event_id)\<close>.
\<close>

definition forbidden_access :: error where
  "forbidden_access =
     ForbiddenError (Pointer ''/data/relationships/rooms'')
       (''You don'' @ [CHR 0x27] @ ''t have access to the provided event'')"

definition check_event_access :: "(string \<Rightarrow> int \<Rightarrow> bool) \<Rightarrow> int option \<Rightarrow> error + unit" where
  "check_event_access has_access event_id =
     (if \<not> truthy_int event_id then Inr ()
      else if \<not> has_access ''is_coorganizer'' (the event_id) then Inl forbidden_access
      else Inr ())"

text \<open>
  \<^verbatim>\<open>check_same_event(room_ids)\<close>. The query returns the rows of the room table whose id is
  among \<open>room_ids\<close>. The Python set \<open>event_ids\<close> is a duplicate-free list; \<open>set_pop\<close> raises
  \<open>KeyError\<close> on the empty set, as \<^verbatim>\<open>set.pop\<close> does. The loop leaves at most one element
  in the set, so which element \<open>set_pop\<close> takes from a larger set never matters.
\<close>

definition forbidden_rooms :: error where
  "forbidden_rooms =
     ForbiddenError (Pointer ''/data/relationships/rooms'')
       ''Video Stream can only be created/edited with rooms of a single event''"

fun collect_event_ids :: "microlocation list \<Rightarrow> int option list \<Rightarrow> error + int option list" where
  "collect_event_ids [] event_ids = Inr event_ids"
| "collect_event_ids (room # rooms) event_ids =
     (let event_ids' = List.insert (ml_event_id room) event_ids
      in if length event_ids' > 1 then Inl forbidden_rooms
         else collect_event_ids rooms event_ids')"

fun set_pop :: "'a list \<Rightarrow> error + 'a" where
  "set_pop [] = Inl (KeyError ''pop from an empty set'')"
| "set_pop (x # xs) = Inr x"

definition query_rooms :: "db \<Rightarrow> int list \<Rightarrow> microlocation list" where
  "query_rooms d room_ids = filter (\<lambda>room. ml_id room \<in> set room_ids) (microlocations d)"

definition check_same_event :: "(string \<Rightarrow> int \<Rightarrow> bool) \<Rightarrow> db \<Rightarrow> int list \<Rightarrow> error + unit" where
  "check_same_event has_access d room_ids =
     and_then (collect_event_ids (query_rooms d room_ids) [])
       (\<lambda>event_ids. and_then (set_pop event_ids) (check_event_access has_access))"

section \<open>Rendering integers\<close>

text \<open>\<^verbatim>\<open>str(n)\<close> as used by the f-string of \<^verbatim>\<open>after_get_object\<close>: decimal digits, a minus sign first.\<close>

fun digit_char :: "nat \<Rightarrow> char" where
  "digit_char n = char_of (48 + n)"

fun str_nat :: "nat \<Rightarrow> string" where
  "str_nat n = (if n < 10 then [digit_char n] else str_nat (n div 10) @ [digit_char (n mod 10)])"

declare str_nat.simps [simp del]

definition str_int :: "int \<Rightarrow> string" where
  "str_int i = (if i < 0 then CHR ''-'' # str_nat (nat (- i)) else str_nat (nat i))"

section \<open>The list resource\<close>

text \<open>
  \<^verbatim>\<open>VideoStreamList.before_post(args, kwargs, data)\<close>. The helper
  \<^verbatim>\<open>require_exclusive_relationship\<close> lives in another module and is a parameter here; it
  is called with the field names, the payload and the flag \<^verbatim>\<open>optional\<close> (default
  \<open>False\<close>). The existence query is \<open>video_exists\<close>.
\<close>

definition conflict_event :: error where
  "conflict_event =
     ConflictError (Pointer ''/data/relationships/event'')
       ''Video Stream for this event already exists''"

definition video_exists :: "db \<Rightarrow> int \<Rightarrow> bool" where
  "video_exists d e = list_ex (\<lambda>stream. vs_event_id stream = Some e) (video_streams d)"

definition before_post ::
  "(string \<Rightarrow> int \<Rightarrow> bool) \<Rightarrow> (string list \<Rightarrow> payload \<Rightarrow> bool \<Rightarrow> error + unit) \<Rightarrow>
   db \<Rightarrow> payload \<Rightarrow> error + unit" where
  "before_post has_access require_exclusive_relationship d data =
     and_then (require_exclusive_relationship [''rooms'', ''event''] data False) (\<lambda>_.
     and_then (if truthy_seq (data_rooms data)
               then check_same_event has_access d (the (data_rooms data)) else Inr ()) (\<lambda>_.
     and_then (check_event_access has_access (data_event data)) (\<lambda>_.
     if truthy_int (data_event data) then
       (if video_exists d (the (data_event data)) then Inl conflict_event else Inr ())
     else Inr ())))"

section \<open>The detail resource\<close>

text \<open>
  \<^verbatim>\<open>VideoStreamDetail.before_get_object(view_kwargs)\<close>. The three calls of
  \<^verbatim>\<open>safe_query_kwargs\<close> (a helper of another module: it returns the row or raises) are the
  parameters \<open>query_room\<close> (by id), \<open>query_event\<close> (by identifier) and \<open>query_stream\<close>
  (by event id). The function returns the updated view arguments.
\<close>

definition before_get_object ::
  "(int \<Rightarrow> error + microlocation) \<Rightarrow> (string \<Rightarrow> error + event) \<Rightarrow>
   (int \<Rightarrow> error + video_stream) \<Rightarrow> view_kwargs \<Rightarrow> error + view_kwargs" where
  "before_get_object query_room query_event query_stream view_kwargs =
     and_then (if truthy_int (vk_room_id view_kwargs)
               then and_then (query_room (the (vk_room_id view_kwargs)))
                      (\<lambda>room. Inr (view_kwargs\<lparr>vk_id := ml_video_stream room\<rparr>))
               else Inr view_kwargs) (\<lambda>view_kwargs.
     and_then (if truthy_seq (vk_event_identifier view_kwargs)
               then and_then (query_event (the (vk_event_identifier view_kwargs)))
                      (\<lambda>event. Inr (view_kwargs\<lparr>vk_event_id := Some (ev_id event)\<rparr>))
               else Inr view_kwargs) (\<lambda>view_kwargs.
     if truthy_int (vk_event_id view_kwargs)
     then and_then (query_stream (the (vk_event_id view_kwargs)))
            (\<lambda>video_stream. Inr (view_kwargs\<lparr>vk_id := Some (vs_id video_stream)\<rparr>))
     else Inr view_kwargs))"

text \<open>\<^verbatim>\<open>after_get_object(stream, view_kwargs)\<close>: \<open>None\<close> is the only falsy stream.\<close>

definition after_get_object :: "video_stream option \<Rightarrow> view_kwargs \<Rightarrow> error + unit" where
  "after_get_object stream view_kwargs =
     (if stream \<noteq> None \<and> \<not> vs_user_can_access (the stream)
      then Inl (ObjectNotFound (Parameter ''id'')
                 (''Video Stream: '' @ str_int (vs_id (the stream)) @ '' not found''))
      else Inr ())"

text \<open>\<^verbatim>\<open>before_update_object(obj, data, kwargs)\<close> and \<^verbatim>\<open>before_delete_object(obj, kwargs)\<close>.\<close>

definition before_update_object ::
  "(string \<Rightarrow> int \<Rightarrow> bool) \<Rightarrow> (string list \<Rightarrow> payload \<Rightarrow> bool \<Rightarrow> error + unit) \<Rightarrow>
   db \<Rightarrow> video_stream \<Rightarrow> payload \<Rightarrow> error + unit" where
  "before_update_object has_access require_exclusive_relationship d obj data =
     and_then (require_exclusive_relationship [''rooms'', ''event''] data True) (\<lambda>_.
     and_then (check_event_access has_access (vs_event_id obj)) (\<lambda>_.
     and_then (check_event_access has_access (data_event data)) (\<lambda>_.
     let rooms = (case data_rooms data of None \<Rightarrow> [] | Some ids \<Rightarrow> ids);
         room_ids = rooms @ map ml_id (vs_rooms obj)
     in if room_ids \<noteq> [] then check_same_event has_access d room_ids else Inr ())))"

definition before_delete_object ::
  "(string \<Rightarrow> int \<Rightarrow> bool) \<Rightarrow> db \<Rightarrow> video_stream \<Rightarrow> error + unit" where
  "before_delete_object has_access d obj =
     and_then (check_event_access has_access (vs_event_id obj)) (\<lambda>_.
     let room_ids = map ml_id (vs_rooms obj)
     in if room_ids \<noteq> [] then check_same_event has_access d room_ids else Inr ())"

section \<open>Outcome predicates and sample data\<close>

text \<open>
  \<open>is_forbidden\<close> recognises a raised \<open>ForbiddenError\<close>, whatever its pointer and message.
\<close>

fun is_forbidden :: "error + 'a \<Rightarrow> bool" where
  "is_forbidden (Inl (ForbiddenError p m)) = True"
| "is_forbidden _ = False"

text \<open>
  A small database for evaluating the hooks. Event 5 has rooms 101 and 102 and a stream of
  its own (id 1); room 201 of event 7 carries stream 8; event 9 has stream 3, to which its
  room 301 belongs; event 11 has no stream.
  \<open>coorganizer_of e\<close> is a requester who is coorganizer of event \<open>e\<close> only, \<open>no_access\<close>
  one without any capability, \<open>helper_passes\<close> an exclusivity helper that accepts the payload.
\<close>

definition room_in :: "int \<Rightarrow> int \<Rightarrow> microlocation" where
  "room_in i e = \<lparr>ml_id = i, ml_event_id = Some e, ml_video_stream = None\<rparr>"

definition room_201 :: microlocation where
  "room_201 = \<lparr>ml_id = 201, ml_event_id = Some 7, ml_video_stream = Some 8\<rparr>"

definition room_301 :: microlocation where
  "room_301 = \<lparr>ml_id = 301, ml_event_id = Some 9, ml_video_stream = Some 3\<rparr>"

definition stream_of_event_9 :: video_stream where
  "stream_of_event_9 =
     \<lparr>vs_id = 3, vs_event_id = Some 9, vs_rooms = [room_301], vs_user_can_access = True\<rparr>"

definition sample_db :: db where
  "sample_db =
     \<lparr>microlocations = [room_in 101 5, room_in 102 5, room_201, room_301],
      video_streams =
        [\<lparr>vs_id = 1, vs_event_id = Some 5, vs_rooms = [], vs_user_can_access = True\<rparr>,
         \<lparr>vs_id = 8, vs_event_id = None, vs_rooms = [room_201], vs_user_can_access = True\<rparr>,
         stream_of_event_9]\<rparr>"

definition coorganizer_of :: "int \<Rightarrow> string \<Rightarrow> int \<Rightarrow> bool" where
  "coorganizer_of e capability event_id = (capability = ''is_coorganizer'' \<and> event_id = e)"

definition no_access :: "string \<Rightarrow> int \<Rightarrow> bool" where
  "no_access capability event_id = False"

definition helper_passes :: "string list \<Rightarrow> payload \<Rightarrow> bool \<Rightarrow> error + unit" where
  "helper_passes field_names data optional = Inr ()"

definition hidden_stream :: video_stream where
  "hidden_stream = \<lparr>vs_id = 42, vs_event_id = Some 9, vs_rooms = [], vs_user_can_access = False\<rparr>"

text \<open>
  Lookups for the detail routes over the same data; the identifier \<open>summit\<close> names
  event 9.
\<close>

definition rooms_by_id :: "int \<Rightarrow> error + microlocation" where
  "rooms_by_id i =
     (if i = 201 then Inr room_201
      else if i = 101 then Inr (room_in 101 5)
      else Inl (ObjectNotFound (Parameter ''room_id'') ''not found''))"

definition events_by_identifier :: "string \<Rightarrow> error + event" where
  "events_by_identifier s =
     (if s = ''summit'' then Inr \<lparr>ev_id = 9, ev_identifier = ''summit''\<rparr>
      else Inl (ObjectNotFound (Parameter ''event_identifier'') ''not found''))"

definition streams_by_event :: "int \<Rightarrow> error + video_stream" where
  "streams_by_event e =
     (if e = 9 then Inr stream_of_event_9
      else Inl (ObjectNotFound (Parameter ''event_id'') ''not found''))"

section \<open>Auxiliary facts\<close>

subsection \<open>Sequencing and rendering\<close>

lemma and_then_unit: "and_then r (\<lambda>_. Inr ()) = (r :: error + unit)"
  by (cases r) simp_all

lemma and_then_Inr: "and_then r Inr = r"
  by (cases r) simp_all

lemma str_int_42: "str_int 42 = ''42''"
  by code_simp

subsection \<open>The loop of the event-consistency guard\<close>

text \<open>
  Once the set holds one event id, the loop succeeds exactly when every remaining room has
  that event id; started on the empty set it therefore compares all rooms with the first.
\<close>

lemma collect_singleton:
  "collect_event_ids rooms [x] =
     (if \<forall>room \<in> set rooms. ml_event_id room = x then Inr [x] else Inl forbidden_rooms)"
  by (induction rooms) (auto simp: Let_def List.insert_def)

lemma collect_empty:
  "collect_event_ids rooms [] =
     (case rooms of [] \<Rightarrow> Inr []
      | room # rest \<Rightarrow>
          if \<forall>r \<in> set rest. ml_event_id r = ml_event_id room then Inr [ml_event_id room]
          else Inl forbidden_rooms)"
  by (cases rooms) (simp_all add: collect_singleton List.insert_def)

text \<open>The set handed to \<open>set_pop\<close> never holds more than one event id.\<close>

lemma collect_event_ids_at_most_one:
  assumes "collect_event_ids rooms [] = Inr event_ids"
  shows "length event_ids \<le> 1"
  using assms by (auto simp: collect_empty split: list.splits if_splits)

text \<open>
  The three outcomes of \<open>check_same_event\<close>: no room found, rooms of one event, rooms of
  several events.
\<close>

lemma check_same_event_cases:
  "check_same_event has_access d room_ids =
     (case query_rooms d room_ids of
        [] \<Rightarrow> Inl (KeyError ''pop from an empty set'')
      | room # rest \<Rightarrow>
          if \<forall>r \<in> set rest. ml_event_id r = ml_event_id room
          then check_event_access has_access (ml_event_id room)
          else Inl forbidden_rooms)"
  by (simp add: check_same_event_def collect_empty split: list.splits)

lemma check_same_event_uniform:
  assumes "query_rooms d room_ids \<noteq> []"
    and "\<forall>room \<in> set (query_rooms d room_ids). ml_event_id room = e"
  shows "check_same_event has_access d room_ids = check_event_access has_access e"
  using assms by (auto simp: check_same_event_cases split: list.splits)

lemma check_same_event_mixed:
  assumes "r1 \<in> set (query_rooms d room_ids)" and "r2 \<in> set (query_rooms d room_ids)"
    and "ml_event_id r1 \<noteq> ml_event_id r2"
  shows "check_same_event has_access d room_ids = Inl forbidden_rooms"
  using assms by (auto simp: check_same_event_cases split: list.splits)

lemma check_event_access_result:
  "check_event_access has_access e =
     (if truthy_int e \<and> \<not> has_access ''is_coorganizer'' (the e) then Inl forbidden_access
      else Inr ())"
  by (simp add: check_event_access_def)

lemma check_same_event_outcomes:
  "check_same_event has_access d room_ids \<in>
     {Inr (), Inl forbidden_access, Inl forbidden_rooms, Inl (KeyError ''pop from an empty set'')}"
  by (simp add: check_same_event_cases check_event_access_result split: list.splits)

lemma check_same_event_not_conflict:
  "check_same_event has_access d room_ids \<noteq> Inl (ConflictError p m)"
  using check_same_event_outcomes [of has_access d room_ids]
  by (auto simp: forbidden_access_def forbidden_rooms_def)

subsection \<open>The room query\<close>

lemma query_rooms_extra_ids:
  assumes "set room_ids \<subseteq> set room_ids'"
    and "\<forall>i \<in> set room_ids' - set room_ids. \<forall>room \<in> set (microlocations d). ml_id room \<noteq> i"
  shows "query_rooms d room_ids' = query_rooms d room_ids"
  unfolding query_rooms_def using assms by (intro filter_cong) auto

lemma check_same_event_set_cong:
  assumes "set room_ids = set room_ids'"
  shows "check_same_event has_access d room_ids = check_same_event has_access d room_ids'"
  using assms by (simp add: check_same_event_def query_rooms_def)

text \<open>
  With ids as primary key of the room table, querying the ids of some rows of the table
  finds exactly these rows.
\<close>

lemma query_rooms_of_rows:
  assumes pk: "distinct (map ml_id (microlocations d))"
    and sub: "set rooms \<subseteq> set (microlocations d)"
  shows "set (query_rooms d (map ml_id rooms)) = set rooms"
proof
  show "set (query_rooms d (map ml_id rooms)) \<subseteq> set rooms"
  proof
    fix r assume "r \<in> set (query_rooms d (map ml_id rooms))"
    then have r: "r \<in> set (microlocations d)" and "ml_id r \<in> ml_id ` set rooms"
      by (auto simp: query_rooms_def)
    then obtain r' where r': "r' \<in> set rooms" and eq: "ml_id r = ml_id r'"
      by auto
    from r' sub have "r' \<in> set (microlocations d)" by auto
    with pk r eq have "r = r'"
      by (simp add: distinct_map inj_on_def)
    with r' show "r \<in> set rooms" by simp
  qed
  show "set rooms \<subseteq> set (query_rooms d (map ml_id rooms))"
    using sub by (auto simp: query_rooms_def)
qed

section \<open>Properties of the guards\<close>

text \<open>
  C1: for every collection of room ids whose rooms, as found by the query, all belong to
  exactly one event \<open>E\<close>, \<open>check_same_event\<close> hands the single remaining event id to
  \<open>check_event_access\<close> and raises \<open>ForbiddenError\<close> if and only if the requester lacks the
  \<open>is_coorganizer\<close> capability on \<open>E\<close>. \<open>E\<close> is the primary key of an event; the database
  generates these keys from 1, so \<open>E\<close> is not \<open>0\<close>, the one integer that the test
  \<^verbatim>\<open>not event_id\<close> of \<open>check_event_access\<close> takes for an absent id.
\<close>

theorem check_same_event_single_event:
  assumes "query_rooms d room_ids \<noteq> []"
    and "\<forall>room \<in> set (query_rooms d room_ids). ml_event_id room = Some E"
    and "E \<noteq> 0"
  shows "check_same_event has_access d room_ids = check_event_access has_access (Some E)
         \<and> (is_forbidden (check_same_event has_access d room_ids)
              \<longleftrightarrow> \<not> has_access ''is_coorganizer'' E)"
proof -
  have delegated: "check_same_event has_access d room_ids = check_event_access has_access (Some E)"
    using assms(1,2) by (rule check_same_event_uniform)
  have "is_forbidden (check_event_access has_access (Some E)) \<longleftrightarrow> \<not> has_access ''is_coorganizer'' E"
    using assms(3) by (simp add: check_event_access_result forbidden_access_def)
  with delegated show ?thesis by simp
qed

text \<open>
  Rooms 101 and 102 of event 5: refused for a requester without access, accepted for a
  coorganizer of event 5.
\<close>

theorem check_same_event_single_event_witness:
  "query_rooms sample_db [101, 102] = [room_in 101 5, room_in 102 5]
   \<and> check_same_event no_access sample_db [101, 102] = check_event_access no_access (Some 5)
   \<and> is_forbidden (check_same_event no_access sample_db [101, 102])
   \<and> \<not> is_forbidden (check_same_event (coorganizer_of 5) sample_db [101, 102])"
proof -
  have q: "query_rooms sample_db [101, 102] = [room_in 101 5, room_in 102 5]"
    by (simp add: query_rooms_def sample_db_def room_in_def room_201_def room_301_def)
  have h1: "query_rooms sample_db [101, 102] \<noteq> []"
    and h2: "\<forall>r \<in> set (query_rooms sample_db [101, 102]). ml_event_id r = Some 5"
    and h3: "(5::int) \<noteq> 0"
    by (simp_all add: q room_in_def)
  from check_same_event_single_event [OF h1 h2 h3, of no_access]
    check_same_event_single_event [OF h1 h2 h3, of "coorganizer_of 5"] q
  show ?thesis by (auto simp: no_access_def coorganizer_of_def)
qed

text \<open>
  C2: for every collection of room ids among whose rooms two have different event ids,
  \<open>check_same_event\<close> raises \<open>ForbiddenError\<close> with pointer \<^verbatim>\<open>/data/relationships/rooms\<close>,
  whatever the access rights of the requester are.
\<close>

theorem check_same_event_several_events:
  assumes "r1 \<in> set (query_rooms d room_ids)" and "r2 \<in> set (query_rooms d room_ids)"
    and "ml_event_id r1 \<noteq> ml_event_id r2"
  shows "check_same_event has_access d room_ids =
           Inl (ForbiddenError (Pointer ''/data/relationships/rooms'')
                  ''Video Stream can only be created/edited with rooms of a single event'')"
  using check_same_event_mixed [OF assms] by (simp add: forbidden_rooms_def)

text \<open>
  Rooms 101 and 102 belong to event 5 and room 201 to event 7; the mixed call fails even
  for a coorganizer of event 5.
\<close>

theorem check_same_event_several_events_witness:
  "room_in 101 5 \<in> set (query_rooms sample_db [101, 102, 201])
   \<and> room_201 \<in> set (query_rooms sample_db [101, 102, 201])
   \<and> check_same_event (coorganizer_of 5) sample_db [101, 102, 201] =
           Inl (ForbiddenError (Pointer ''/data/relationships/rooms'')
                  ''Video Stream can only be created/edited with rooms of a single event'')"
proof -
  have h1: "room_in 101 5 \<in> set (query_rooms sample_db [101, 102, 201])"
    and h2: "room_201 \<in> set (query_rooms sample_db [101, 102, 201])"
    and h3: "ml_event_id (room_in 101 5) \<noteq> ml_event_id (room_201)"
    by (simp_all add: query_rooms_def sample_db_def room_in_def room_201_def room_301_def)
  from check_same_event_several_events [OF h1 h2 h3, of "coorganizer_of 5"] h1 h2
  show ?thesis by simp
qed

text \<open>
  C3 (amended): an empty collection of room ids is a no-op at the call sites. The
  pre-delete, pre-update and pre-create hooks call \<open>check_same_event\<close> only on a non-empty
  collection, so for a stream without rooms and a payload without room ids their outcome is
  that of the remaining checks alone. (\<open>check_same_event\<close> itself does not return normally
  on the empty collection, see below.)
\<close>

theorem hooks_skip_guard_without_rooms:
  assumes "vs_rooms obj = []" and "\<not> truthy_seq (data_rooms data)"
  shows "before_delete_object has_access d obj = check_event_access has_access (vs_event_id obj)
       \<and> before_update_object has_access rer d obj data =
           and_then (rer [''rooms'', ''event''] data True) (\<lambda>_.
           and_then (check_event_access has_access (vs_event_id obj)) (\<lambda>_.
           check_event_access has_access (data_event data)))
       \<and> before_post has_access rer d data =
           and_then (rer [''rooms'', ''event''] data False) (\<lambda>_.
           and_then (check_event_access has_access (data_event data)) (\<lambda>_.
           if truthy_int (data_event data) \<and> video_exists d (the (data_event data))
           then Inl conflict_event else Inr ()))"
proof -
  from assms(2) have no_ids: "(case data_rooms data of None \<Rightarrow> [] | Some ids \<Rightarrow> ids) = []"
    by (cases "data_rooms data") simp_all
  have "before_delete_object has_access d obj = check_event_access has_access (vs_event_id obj)"
    using assms(1) by (simp add: before_delete_object_def and_then_unit and_then_Inr)
  moreover have "before_update_object has_access rer d obj data =
           and_then (rer [''rooms'', ''event''] data True) (\<lambda>_.
           and_then (check_event_access has_access (vs_event_id obj)) (\<lambda>_.
           check_event_access has_access (data_event data)))"
    using assms(1) no_ids by (simp add: before_update_object_def and_then_unit and_then_Inr)
  moreover have "before_post has_access rer d data =
           and_then (rer [''rooms'', ''event''] data False) (\<lambda>_.
           and_then (check_event_access has_access (data_event data)) (\<lambda>_.
           if truthy_int (data_event data) \<and> video_exists d (the (data_event data))
           then Inl conflict_event else Inr ()))"
    using assms(2) by (simp add: before_post_def if_distrib cong: if_cong)
  ultimately show ?thesis by simp
qed

text \<open>
  Coorganizers deleting and updating the stream of event 9 and creating a stream for
  event 11, without any room id.
\<close>

theorem hooks_skip_guard_without_rooms_witness:
  "before_delete_object (coorganizer_of 9) sample_db (stream_of_event_9\<lparr>vs_rooms := []\<rparr>) = Inr ()
   \<and> before_update_object (coorganizer_of 9) helper_passes sample_db
        (stream_of_event_9\<lparr>vs_rooms := []\<rparr>) \<lparr>data_rooms = Some [], data_event = None\<rparr> = Inr ()
   \<and> before_post (coorganizer_of 11) helper_passes sample_db
        \<lparr>data_rooms = Some [], data_event = Some 11\<rparr> = Inr ()"
proof -
  have h1: "vs_rooms (stream_of_event_9\<lparr>vs_rooms := []\<rparr>) = []"
    by simp
  have h2: "\<not> truthy_seq (data_rooms \<lparr>data_rooms = Some [], data_event = None\<rparr>)"
    and h2': "\<not> truthy_seq (data_rooms \<lparr>data_rooms = Some [], data_event = Some 11\<rparr>)"
    by simp_all
  from hooks_skip_guard_without_rooms [where has_access = "coorganizer_of 9" and d = sample_db
      and rer = helper_passes, OF h1 h2]
    hooks_skip_guard_without_rooms [where has_access = "coorganizer_of 11" and d = sample_db
      and rer = helper_passes, OF h1 h2']
  show ?thesis
    by (simp add: check_event_access_def coorganizer_of_def helper_passes_def
        stream_of_event_9_def video_exists_def sample_db_def)
qed

text \<open>
  Called with no room ids, \<open>check_same_event\<close> finds no room, leaves the set of event ids
  empty and raises \<open>KeyError\<close> at \<^verbatim>\<open>event_ids.pop()\<close>.
\<close>

theorem check_same_event_empty_counterexample:
  "check_same_event (coorganizer_of 5) sample_db [] = Inl (KeyError ''pop from an empty set'')"
  by (simp add: check_same_event_def query_rooms_def)

text \<open>
  C6: \<^verbatim>\<open>check_event_access(None)\<close> returns normally whatever the permission predicate
  is: no access check decides the outcome and nothing is raised.
\<close>

theorem check_event_access_None:
  "check_event_access has_access None = Inr ()"
  by (simp add: check_event_access_def)

text \<open>
  C10: room ids that match no existing room are ignored. Adding such ids to a collection
  changes neither the rooms found nor the outcome of \<open>check_same_event\<close>: no error about
  the unknown ids, and the same access decision.
\<close>

theorem check_same_event_ignores_unknown_ids:
  assumes "set room_ids \<subseteq> set room_ids'"
    and "\<forall>i \<in> set room_ids' - set room_ids. \<forall>room \<in> set (microlocations d). ml_id room \<noteq> i"
  shows "query_rooms d room_ids' = query_rooms d room_ids
         \<and> check_same_event has_access d room_ids' = check_same_event has_access d room_ids"
  using query_rooms_extra_ids [OF assms] by (simp add: check_same_event_def)

text \<open>
  The unknown ids 999 and 888 around rooms 101 and 102 of event 5, for its coorganizer.
\<close>

theorem check_same_event_ignores_unknown_ids_witness:
  "check_same_event (coorganizer_of 5) sample_db [999, 101, 102, 888] =
     check_same_event (coorganizer_of 5) sample_db [101, 102]
   \<and> check_same_event (coorganizer_of 5) sample_db [101, 102] = Inr ()"
proof -
  have h1: "set [101, 102 :: int] \<subseteq> set [999, 101, 102, 888]" by simp
  have h2: "\<forall>i \<in> set [999, 101, 102, 888 :: int] - set [101, 102].
              \<forall>r \<in> set (microlocations sample_db). ml_id r \<noteq> i"
    by (auto simp: sample_db_def room_in_def room_201_def room_301_def)
  have "check_same_event (coorganizer_of 5) sample_db [101, 102] = Inr ()"
    by (simp add: check_same_event_cases check_event_access_def query_rooms_def sample_db_def
        room_in_def room_201_def room_301_def coorganizer_of_def)
  with check_same_event_ignores_unknown_ids [OF h1 h2, of "coorganizer_of 5"]
  show ?thesis by simp
qed

section \<open>Properties of the list resource\<close>

text \<open>
  C4 (amended): for a create request that passes the exclusivity helper and names event
  \<open>E\<close>, the pre-create hook raises \<open>ConflictError\<close> with pointer
  \<^verbatim>\<open>/data/relationships/event\<close> exactly when the guards that run first let the request
  through (the rooms guard, if room ids are given; \<open>E\<close> non-zero and the requester
  coorganizer of \<open>E\<close>) and a stream of event \<open>E\<close> exists. In particular no conflict is
  raised when no stream exists for the event.
\<close>

theorem before_post_conflict:
  assumes "rer [''rooms'', ''event''] data False = Inr ()"
    and "data_event data = Some E"
  shows "before_post has_access rer d data =
           Inl (ConflictError (Pointer ''/data/relationships/event'')
                  ''Video Stream for this event already exists'')
         \<longleftrightarrow> (\<not> truthy_seq (data_rooms data)
                \<or> check_same_event has_access d (the (data_rooms data)) = Inr ())
             \<and> E \<noteq> 0 \<and> has_access ''is_coorganizer'' E
             \<and> (\<exists>stream \<in> set (video_streams d). vs_event_id stream = Some E)"
proof -
  let ?rooms = "if truthy_seq (data_rooms data)
                then check_same_event has_access d (the (data_rooms data)) else Inr ()"
  have not_conflict: "?rooms \<noteq> Inl (ConflictError p m)" for p m
    by (simp add: check_same_event_not_conflict)
  show ?thesis
  proof (cases ?rooms)
    case (Inl e)
    with not_conflict have "e \<noteq> conflict_event"
      by (auto simp: conflict_event_def)
    with Inl assms show ?thesis
      by (auto simp: before_post_def conflict_event_def split: if_splits)
  next
    case (Inr u)
    with assms show ?thesis
      by (auto simp: before_post_def check_event_access_result conflict_event_def
          forbidden_access_def video_exists_def list_ex_iff split: if_splits)
  qed
qed

text \<open>
  Event 5 has a stream, event 11 has none; each request is made by a coorganizer of its
  event.
\<close>

theorem before_post_conflict_witness:
  "before_post (coorganizer_of 5) helper_passes sample_db \<lparr>data_rooms = None, data_event = Some 5\<rparr> =
           Inl (ConflictError (Pointer ''/data/relationships/event'')
                  ''Video Stream for this event already exists'')
   \<and> before_post (coorganizer_of 11) helper_passes sample_db \<lparr>data_rooms = None, data_event = Some 11\<rparr> \<noteq>
           Inl (ConflictError (Pointer ''/data/relationships/event'')
                  ''Video Stream for this event already exists'')"
proof -
  have h1: "helper_passes [''rooms'', ''event''] \<lparr>data_rooms = None, data_event = Some 5\<rparr> False = Inr ()"
    and h1': "helper_passes [''rooms'', ''event''] \<lparr>data_rooms = None, data_event = Some 11\<rparr> False = Inr ()"
    by (simp_all add: helper_passes_def)
  have h2: "data_event \<lparr>data_rooms = None, data_event = Some 5\<rparr> = Some 5"
    and h2': "data_event \<lparr>data_rooms = None, data_event = Some 11\<rparr> = Some 11"
    by simp_all
  from before_post_conflict [where has_access = "coorganizer_of 5" and d = sample_db
      and rer = helper_passes, OF h1 h2]
    before_post_conflict [where has_access = "coorganizer_of 11" and d = sample_db
      and rer = helper_passes, OF h1' h2']
  show ?thesis
    by (simp add: coorganizer_of_def sample_db_def stream_of_event_9_def)
qed

text \<open>
  A requester without coorganizer access who names event 5, which already has a stream,
  gets \<open>ForbiddenError\<close> from the access guard, not \<open>ConflictError\<close>.
\<close>

theorem before_post_forbidden_counterexample:
  "(\<exists>stream \<in> set (video_streams sample_db). vs_event_id stream = Some 5)
   \<and> before_post no_access helper_passes sample_db \<lparr>data_rooms = None, data_event = Some 5\<rparr> =
       Inl (ForbiddenError (Pointer ''/data/relationships/rooms'')
              (''You don'' @ [CHR 0x27] @ ''t have access to the provided event''))"
  by (simp add: before_post_def helper_passes_def check_event_access_def no_access_def
      forbidden_access_def sample_db_def stream_of_event_9_def)

section \<open>Properties of the detail resource\<close>

text \<open>
  C5: for every fetched stream whose flag \<open>user_can_access\<close> (computed for the requesting
  user) is false, \<open>after_get_object\<close> raises \<open>ObjectNotFound\<close>, the error of a missing
  object; the hook does not return, so the stream is not handed on.
\<close>

theorem after_get_object_hidden_stream:
  assumes "\<not> vs_user_can_access stream"
  shows "after_get_object (Some stream) view_kwargs =
           Inl (ObjectNotFound (Parameter ''id'')
                  (''Video Stream: '' @ str_int (vs_id stream) @ '' not found''))"
  using assms by (simp add: after_get_object_def)

text \<open>
  Stream 42, hidden from the requester.
\<close>

theorem after_get_object_hidden_stream_witness:
  "\<not> vs_user_can_access hidden_stream
   \<and> after_get_object (Some hidden_stream)
         \<lparr>vk_id = Some 42, vk_room_id = None, vk_event_identifier = None, vk_event_id = None\<rparr> =
       Inl (ObjectNotFound (Parameter ''id'') ''Video Stream: 42 not found'')"
proof -
  have h: "\<not> vs_user_can_access hidden_stream"
    by (simp add: hidden_stream_def)
  have "vs_id hidden_stream = 42"
    by (simp add: hidden_stream_def)
  with after_get_object_hidden_stream [OF h] h
  show ?thesis by (simp add: str_int_42)
qed

text \<open>
  C7: once the exclusivity helper (called with \<^verbatim>\<open>optional=True\<close>) has passed, the
  pre-update hook raises \<open>ForbiddenError\<close> when the requester lacks coorganizer access on
  the current event id of the object or on the newly proposed event id; otherwise it runs
  \<open>check_same_event\<close> over the union of the proposed room ids and the ids of the object's
  rooms (in any enumeration \<open>room_ids\<close> of that union), and skips the guard only when the
  union is empty.
\<close>

theorem before_update_object_checks:
  assumes "rer [''rooms'', ''event''] data True = Inr ()"
    and "set room_ids =
           set (case data_rooms data of None \<Rightarrow> [] | Some ids \<Rightarrow> ids) \<union> ml_id ` set (vs_rooms obj)"
  shows "before_update_object has_access rer d obj data =
           (if (truthy_int (vs_event_id obj) \<and> \<not> has_access ''is_coorganizer'' (the (vs_event_id obj)))
               \<or> (truthy_int (data_event data) \<and> \<not> has_access ''is_coorganizer'' (the (data_event data)))
            then Inl forbidden_access
            else if room_ids = [] then Inr ()
            else check_same_event has_access d room_ids)"
proof -
  let ?ids = "(case data_rooms data of None \<Rightarrow> [] | Some ids \<Rightarrow> ids) @ map ml_id (vs_rooms obj)"
  from assms(2) have same: "set ?ids = set room_ids"
    by simp
  then have empty: "?ids = [] \<longleftrightarrow> room_ids = []"
    by (metis set_empty)
  have guard: "check_same_event has_access d ?ids = check_same_event has_access d room_ids"
    using same by (rule check_same_event_set_cong)
  have "before_update_object has_access rer d obj data =
           (if (truthy_int (vs_event_id obj) \<and> \<not> has_access ''is_coorganizer'' (the (vs_event_id obj)))
               \<or> (truthy_int (data_event data) \<and> \<not> has_access ''is_coorganizer'' (the (data_event data)))
            then Inl forbidden_access
            else if ?ids = [] then Inr ()
            else check_same_event has_access d ?ids)"
    using assms(1)
    by (simp add: before_update_object_def check_event_access_result Let_def del: append_is_Nil_conv)
  then show ?thesis
    by (simp only: empty guard)
qed

text \<open>
  The stream of event 9 with its room 301, updated by a coorganizer of event 9: proposing
  room 101 of event 5 makes the union span two events; proposing event 5 fails the access
  check; an empty update passes.
\<close>

theorem before_update_object_checks_witness:
  "before_update_object (coorganizer_of 9) helper_passes sample_db stream_of_event_9
      \<lparr>data_rooms = Some [101], data_event = None\<rparr> = Inl forbidden_rooms
   \<and> before_update_object (coorganizer_of 9) helper_passes sample_db stream_of_event_9
      \<lparr>data_rooms = None, data_event = Some 5\<rparr> = Inl forbidden_access
   \<and> before_update_object (coorganizer_of 9) helper_passes sample_db stream_of_event_9
      \<lparr>data_rooms = None, data_event = None\<rparr> = Inr ()"
proof -
  have h: "helper_passes [''rooms'', ''event''] data True = Inr ()" for data
    by (simp add: helper_passes_def)
  have u1: "set [101, 301] = set (case data_rooms \<lparr>data_rooms = Some [101], data_event = None\<rparr> of
                None \<Rightarrow> [] | Some ids \<Rightarrow> ids) \<union> ml_id ` set (vs_rooms stream_of_event_9)"
    and u2: "set [301] = set (case data_rooms \<lparr>data_rooms = None, data_event = Some 5\<rparr> of
                None \<Rightarrow> [] | Some ids \<Rightarrow> ids) \<union> ml_id ` set (vs_rooms stream_of_event_9)"
    and u3: "set [301] = set (case data_rooms \<lparr>data_rooms = None, data_event = None\<rparr> of
                None \<Rightarrow> [] | Some ids \<Rightarrow> ids) \<union> ml_id ` set (vs_rooms stream_of_event_9)"
    by (auto simp: stream_of_event_9_def room_301_def)
  have mixed: "check_same_event (coorganizer_of 9) sample_db [101, 301] = Inl forbidden_rooms"
    and single: "check_same_event (coorganizer_of 9) sample_db [301] = Inr ()"
    by (simp_all add: check_same_event_cases check_event_access_def query_rooms_def sample_db_def
        room_in_def room_201_def room_301_def coorganizer_of_def)
  from before_update_object_checks [where has_access = "coorganizer_of 9" and d = sample_db
      and rer = helper_passes, OF h u1]
    before_update_object_checks [where has_access = "coorganizer_of 9" and d = sample_db
      and rer = helper_passes, OF h u2]
    before_update_object_checks [where has_access = "coorganizer_of 9" and d = sample_db
      and rer = helper_passes, OF h u3]
    mixed single
  show ?thesis
    by (simp add: stream_of_event_9_def coorganizer_of_def)
qed

text \<open>
  C8: the pre-fetch hook resolves in the order \<open>room_id\<close>, \<open>event_identifier\<close>,
  \<open>event_id\<close>, presence being Python truthiness of \<^verbatim>\<open>view_kwargs.get(...)\<close>. When the
  lookups it makes succeed: a present \<open>room_id\<close> sets the target id to the stream id of that
  room, or to none when the room has no stream; a present \<open>event_identifier\<close> sets
  \<open>event_id\<close> to the id of the event found; a present \<open>event_id\<close> (given, or just set by
  the identifier) then sets the target id to the id of the stream found for it, overwriting
  what the \<open>room_id\<close> step wrote.
\<close>

theorem before_get_object_resolution:
  assumes "truthy_int (vk_room_id vk) \<Longrightarrow> query_room (the (vk_room_id vk)) = Inr room"
    and "truthy_seq (vk_event_identifier vk) \<Longrightarrow>
           query_event (the (vk_event_identifier vk)) = Inr event"
    and "event_id =
           (if truthy_seq (vk_event_identifier vk) then Some (ev_id event) else vk_event_id vk)"
    and "truthy_int event_id \<Longrightarrow> query_stream (the event_id) = Inr stream"
  shows "before_get_object query_room query_event query_stream vk =
           Inr (vk\<lparr>vk_event_id := event_id,
                   vk_id := (if truthy_int event_id then Some (vs_id stream)
                             else if truthy_int (vk_room_id vk) then ml_video_stream room
                             else vk_id vk)\<rparr>)"
proof (cases "truthy_seq (vk_event_identifier vk)")
  case True
  with assms show ?thesis
    by (cases "truthy_int (vk_room_id vk)"; cases "truthy_int event_id")
      (simp_all add: before_get_object_def)
next
  case False
  with assms show ?thesis
    by (cases "truthy_int (vk_room_id vk)"; cases "truthy_int event_id")
      (simp_all add: before_get_object_def)
qed

text \<open>
  All three keys at once: the identifier replaces the given event id 5 by 9, and the stream
  of event 9 (id 3) replaces stream 8 of room 201. With \<open>room_id\<close> alone the target is the
  room's stream, or none for room 101.
\<close>

theorem before_get_object_resolution_witness:
  "before_get_object rooms_by_id events_by_identifier streams_by_event
      \<lparr>vk_id = None, vk_room_id = Some 201, vk_event_identifier = Some ''summit'',
       vk_event_id = Some 5\<rparr> =
     Inr \<lparr>vk_id = Some 3, vk_room_id = Some 201, vk_event_identifier = Some ''summit'',
          vk_event_id = Some 9\<rparr>
   \<and> before_get_object rooms_by_id events_by_identifier streams_by_event
      \<lparr>vk_id = Some 77, vk_room_id = Some 201, vk_event_identifier = None, vk_event_id = None\<rparr> =
     Inr \<lparr>vk_id = Some 8, vk_room_id = Some 201, vk_event_identifier = None, vk_event_id = None\<rparr>
   \<and> before_get_object rooms_by_id events_by_identifier streams_by_event
      \<lparr>vk_id = Some 77, vk_room_id = Some 101, vk_event_identifier = None, vk_event_id = None\<rparr> =
     Inr \<lparr>vk_id = None, vk_room_id = Some 101, vk_event_identifier = None, vk_event_id = None\<rparr>"
proof -
  let ?all = "\<lparr>vk_id = None, vk_room_id = Some 201, vk_event_identifier = Some ''summit'',
               vk_event_id = Some 5\<rparr>"
  let ?with_stream = "\<lparr>vk_id = Some 77, vk_room_id = Some 201, vk_event_identifier = None,
                       vk_event_id = None\<rparr>"
  let ?without_stream = "\<lparr>vk_id = Some 77, vk_room_id = Some 101, vk_event_identifier = None,
                          vk_event_id = None\<rparr>"
  have a: "before_get_object rooms_by_id events_by_identifier streams_by_event ?all =
             Inr (?all\<lparr>vk_event_id := Some 9,
                   vk_id := (if truthy_int (Some 9) then Some (vs_id stream_of_event_9)
                             else if truthy_int (vk_room_id ?all)
                                  then ml_video_stream room_201
                             else vk_id ?all)\<rparr>)"
    by (rule before_get_object_resolution [where event = "\<lparr>ev_id = 9, ev_identifier = ''summit''\<rparr>"])
      (simp_all add: rooms_by_id_def events_by_identifier_def streams_by_event_def)
  have b: "before_get_object rooms_by_id events_by_identifier streams_by_event ?with_stream =
             Inr (?with_stream\<lparr>vk_event_id := None,
                   vk_id := (if truthy_int None then Some (vs_id stream_of_event_9)
                             else if truthy_int (vk_room_id ?with_stream)
                                  then ml_video_stream room_201
                             else vk_id ?with_stream)\<rparr>)"
    by (rule before_get_object_resolution [where event = "\<lparr>ev_id = 9, ev_identifier = ''summit''\<rparr>"])
      (simp_all add: rooms_by_id_def)
  have c: "before_get_object rooms_by_id events_by_identifier streams_by_event ?without_stream =
             Inr (?without_stream\<lparr>vk_event_id := None,
                   vk_id := (if truthy_int None then Some (vs_id stream_of_event_9)
                             else if truthy_int (vk_room_id ?without_stream)
                                  then ml_video_stream (room_in 101 5)
                             else vk_id ?without_stream)\<rparr>)"
    by (rule before_get_object_resolution [where event = "\<lparr>ev_id = 9, ev_identifier = ''summit''\<rparr>"])
      (simp_all add: rooms_by_id_def)
  from a b c show ?thesis
    by (simp add: stream_of_event_9_def room_in_def room_201_def)
qed

text \<open>
  C9: for every stream whose event id is \<open>E\<close> and whose rooms (possibly none) are rows of
  the room table that all belong to event \<open>E\<close>, the pre-delete hook raises nothing when the
  requester holds coorganizer access on \<open>E\<close>. Room ids are the primary key of the table.
\<close>

theorem before_delete_object_coorganizer:
  assumes "distinct (map ml_id (microlocations d))"
    and "set (vs_rooms obj) \<subseteq> set (microlocations d)"
    and "vs_event_id obj = Some E"
    and "\<forall>room \<in> set (vs_rooms obj). ml_event_id room = Some E"
    and "has_access ''is_coorganizer'' E"
  shows "before_delete_object has_access d obj = Inr ()"
proof -
  have access: "check_event_access has_access (Some E) = Inr ()"
    using assms(5) by (simp add: check_event_access_def)
  show ?thesis
  proof (cases "vs_rooms obj = []")
    case True
    with access assms(3) show ?thesis
      by (simp add: before_delete_object_def)
  next
    case False
    have found: "set (query_rooms d (map ml_id (vs_rooms obj))) = set (vs_rooms obj)"
      using assms(1,2) by (rule query_rooms_of_rows)
    with False have "query_rooms d (map ml_id (vs_rooms obj)) \<noteq> []"
      by (metis set_empty)
    moreover from found assms(4)
    have "\<forall>room \<in> set (query_rooms d (map ml_id (vs_rooms obj))). ml_event_id room = Some E"
      by simp
    ultimately have "check_same_event has_access d (map ml_id (vs_rooms obj)) =
                       check_event_access has_access (Some E)"
      by (rule check_same_event_uniform)
    with access assms(3) False show ?thesis
      by (simp add: before_delete_object_def)
  qed
qed

text \<open>
  A coorganizer of event 9 deleting the stream of event 9, with its room 301 and without
  rooms.
\<close>

theorem before_delete_object_coorganizer_witness:
  "before_delete_object (coorganizer_of 9) sample_db stream_of_event_9 = Inr ()
   \<and> before_delete_object (coorganizer_of 9) sample_db (stream_of_event_9\<lparr>vs_rooms := []\<rparr>) = Inr ()"
proof -
  have h1: "distinct (map ml_id (microlocations sample_db))"
    by (simp add: sample_db_def room_in_def room_201_def room_301_def)
  have h2: "set (vs_rooms stream_of_event_9) \<subseteq> set (microlocations sample_db)"
    and h2': "set (vs_rooms (stream_of_event_9\<lparr>vs_rooms := []\<rparr>)) \<subseteq> set (microlocations sample_db)"
    by (simp_all add: sample_db_def stream_of_event_9_def)
  have h3: "vs_event_id stream_of_event_9 = Some 9"
    and h3': "vs_event_id (stream_of_event_9\<lparr>vs_rooms := []\<rparr>) = Some 9"
    by (simp_all add: stream_of_event_9_def)
  have h4: "\<forall>r \<in> set (vs_rooms stream_of_event_9). ml_event_id r = Some 9"
    and h4': "\<forall>r \<in> set (vs_rooms (stream_of_event_9\<lparr>vs_rooms := []\<rparr>)). ml_event_id r = Some 9"
    by (simp_all add: stream_of_event_9_def room_301_def)
  have h5: "coorganizer_of 9 ''is_coorganizer'' 9"
    by (simp add: coorganizer_of_def)
  from before_delete_object_coorganizer [where has_access = "coorganizer_of 9", OF h1 h2 h3 h4 h5]
    before_delete_object_coorganizer [where has_access = "coorganizer_of 9", OF h1 h2' h3' h4' h5]
  show ?thesis by simp
qed

end
